theory Spec2Isabelle
  imports Main "HOL-Library.Word"
begin

unbundle bit_operations_syntax

section \<open>Go values: bytes, strings, machine integers\<close>

text \<open>
  A Go \<^verbatim>\<open>string\<close> is an immutable sequence of bytes; so is \<^typ>\<open>string\<close> here
  (a \<^typ>\<open>char\<close> is one byte). A \<^verbatim>\<open>[]byte\<close> is a list of 8-bit words. The
  conversions \<^verbatim>\<open>[]byte(s)\<close> and \<^verbatim>\<open>string(b)\<close> copy the bytes unchanged.
  \<^verbatim>\<open>int64\<close> is a 64-bit word read in two's complement; \<^verbatim>\<open>int\<close> is taken at its
  64-bit width (amd64, arm64). \<^verbatim>\<open>float64\<close> is the IEEE 754 binary64 bit pattern
  (\<^verbatim>\<open>math.Float64bits\<close>).
\<close>

type_synonym byte = "8 word"
type_synonym uint32 = "32 word"
type_synonym uint64 = "64 word"
type_synonym int64 = "64 word"
type_synonym go_int = "64 word"
type_synonym float64 = "64 word"

definition bytes_of :: "string \<Rightarrow> byte list" where
  "bytes_of s = map of_char s"

definition string_of :: "byte list \<Rightarrow> string" where
  "string_of b = map (\<lambda>v. char_of (unat v)) b"

section \<open>strconv and fmt: decimal integers\<close>

definition digits :: string where
  "digits = ''0123456789abcdefghijklmnopqrstuvwxyz''"

text \<open>\<^verbatim>\<open>strconv.formatBits\<close> in base 10: the digits of an unsigned value, most
  significant first.\<close>

fun formatBits :: "nat \<Rightarrow> string" where
  "formatBits u = (if u < 10 then [digits ! u] else formatBits (u div 10) @ [digits ! (u mod 10)])"

declare formatBits.simps [simp del]

definition FormatInt :: "int \<Rightarrow> string" where
  "FormatInt i = (if i < 0 then CHR ''-'' # formatBits (nat (- i)) else formatBits (nat i))"

text \<open>The two verbs of the format \<^verbatim>\<open>"%d%d%s%s%d"\<close>: \<^verbatim>\<open>%d\<close> prints a signed integer
  in base 10 and \<^verbatim>\<open>%s\<close> copies the bytes of a string.\<close>

definition fmt_d :: "64 word \<Rightarrow> string" where
  "fmt_d v = FormatInt (sint v)"

definition fmt_s :: "string \<Rightarrow> string" where
  "fmt_s s = s"

section \<open>unicode/utf8\<close>

definition RuneError :: nat where
  "RuneError = 0xFFFD"

text \<open>\<^verbatim>\<open>utf8.DecodeRuneInString\<close>: the first rune of the string and its width in bytes;
  \<open>(RuneError, 1)\<close> for an invalid or incomplete encoding.\<close>

definition DecodeRuneInString :: "string \<Rightarrow> nat \<times> nat" where
  "DecodeRuneInString s =
     (case s of [] \<Rightarrow> (RuneError, 0)
      | c0 # _ \<Rightarrow>
        let p0 = (of_char c0 :: nat) in
        if p0 < 0x80 then (p0, 1)
        else if p0 < 0xC2 \<or> 0xF4 < p0 then (RuneError, 1)
        else
          let sz = (if p0 < 0xE0 then 2 else if p0 < 0xF0 then 3 else 4 :: nat);
              lo = (if p0 = 0xE0 then 0xA0 else if p0 = 0xF0 then 0x90 else 0x80 :: nat);
              hi = (if p0 = 0xED then 0x9F else if p0 = 0xF4 then 0x8F else 0xBF :: nat)
          in
          if length s < sz then (RuneError, 1)
          else
            let b1 = (of_char (s ! 1) :: nat) in
            if b1 < lo \<or> hi < b1 then (RuneError, 1)
            else if sz \<le> 2 then (push_bit 6 (p0 AND 0x1F) OR (b1 AND 0x3F), 2)
            else
              let b2 = (of_char (s ! 2) :: nat) in
              if b2 < 0x80 \<or> 0xBF < b2 then (RuneError, 1)
              else if sz \<le> 3
              then (push_bit 12 (p0 AND 0x0F) OR push_bit 6 (b1 AND 0x3F) OR (b2 AND 0x3F), 3)
              else
                let b3 = (of_char (s ! 3) :: nat) in
                if b3 < 0x80 \<or> 0xBF < b3 then (RuneError, 1)
                else (push_bit 18 (p0 AND 0x07) OR push_bit 12 (b1 AND 0x3F)
                        OR push_bit 6 (b2 AND 0x3F) OR (b3 AND 0x3F), 4))"

section \<open>strconv: the shortest decimal of a float64\<close>

definition float_exp :: "float64 \<Rightarrow> nat" where
  "float_exp f = unat (drop_bit 52 f AND 0x7FF)"

definition float_mant :: "float64 \<Rightarrow> nat" where
  "float_mant f = unat (f AND 0xFFFFFFFFFFFFF)"

definition float_neg :: "float64 \<Rightarrow> bool" where
  "float_neg f \<longleftrightarrow> drop_bit 63 f \<noteq> 0"

definition IsNaN :: "float64 \<Rightarrow> bool" where
  "IsNaN f \<longleftrightarrow> float_exp f = 0x7FF \<and> float_mant f \<noteq> 0"

text \<open>\<^verbatim>\<open>math.IsInf(f, 0)\<close>: either infinity.\<close>

definition IsInf :: "float64 \<Rightarrow> bool" where
  "IsInf f \<longleftrightarrow> float_exp f = 0x7FF \<and> float_mant f = 0"

text \<open>
  The shortest digit string that reads back as the same float64. The value is
  \<open>mant * 2 ^ e\<close>; \<open>lower\<close> and \<open>upper\<close> are the midpoints to the neighbouring floats,
  admissible themselves only for an even mantissa. All three are natural numbers in a
  common unit \<open>10 ^ - P\<close>. The loop walks the decimal places from the leading one of
  \<open>upper\<close> downwards and stops at the first place where the value cut off there, or cut
  off and incremented, lies between the bounds; it takes the nearer one when both do.
\<close>

fun roundShortest_loop :: "nat \<Rightarrow> nat \<Rightarrow> nat \<Rightarrow> bool \<Rightarrow> nat \<Rightarrow> nat \<times> nat" where
  "roundShortest_loop lower d upper inclusive 0 = (d, 0)"
| "roundShortest_loop lower d upper inclusive (Suc k) =
     (let unit = 10 ^ Suc k;
          fl = d div unit;
          down = fl * unit;
          up = down + unit;
          okdown = (lower < down \<or> (inclusive \<and> down = lower));
          okup = (up < upper \<or> (inclusive \<and> up = upper))
      in if okdown \<and> okup
         then (if unit < 2 * (d mod unit) \<or> (2 * (d mod unit) = unit \<and> odd fl)
               then (fl + 1, Suc k) else (fl, Suc k))
         else if okdown then (fl, Suc k)
         else if okup then (fl + 1, Suc k)
         else roundShortest_loop lower d upper inclusive k)"

definition trim :: "string \<Rightarrow> string" where
  "trim d = rev (dropWhile (\<lambda>c. c = CHR ''0'') (rev d))"

text \<open>The digits and the position of the decimal point: the value is
  \<open>0.d\<^sub>1d\<^sub>2\<dots> * 10 ^ dp\<close>.\<close>

definition roundShortest :: "nat \<Rightarrow> int \<Rightarrow> string \<times> int" where
  "roundShortest mant e =
     (if mant = 0 then ([], 0)
      else
        let lo4 = (if 2 ^ 52 < mant \<or> e = - 1074 then 4 * mant - 2 else 4 * mant - 1);
            S = (if 2 \<le> e then 2 ^ nat (e - 2) else 5 ^ nat (2 - e));
            P = (if 2 \<le> e then 0 else 2 - e);
            upper = (4 * mant + 2) * S;
            (r, k) = roundShortest_loop (lo4 * S) (4 * mant * S) upper (even mant)
                       (length (formatBits upper) - 1);
            ds = formatBits r
        in (trim ds, int (length ds) + int k - P))"

text \<open>\<^verbatim>\<open>%f\<close>: \<^verbatim>\<open>-ddddddd.ddddd\<close> with \<open>prec\<close> digits after the point.\<close>

definition fmtF :: "bool \<Rightarrow> string \<Rightarrow> int \<Rightarrow> nat \<Rightarrow> string" where
  "fmtF neg d dp prec =
     (if neg then ''-'' else [])
     @ (if 0 < dp then take (nat dp) d @ replicate (nat dp - length d) (CHR ''0'') else ''0'')
     @ (if 0 < prec
        then CHR ''.'' # map (\<lambda>i. let j = dp + int i
                                 in if 0 \<le> j \<and> j < int (length d) then d ! nat j else CHR ''0'')
                            [0..<prec]
        else [])"

text \<open>\<^verbatim>\<open>%e\<close>: \<^verbatim>\<open>-d.ddddde+dd\<close> with \<open>prec\<close> digits after the point and at least two
  exponent digits.\<close>

definition fmtE :: "bool \<Rightarrow> string \<Rightarrow> int \<Rightarrow> nat \<Rightarrow> string" where
  "fmtE neg d dp prec =
     (if neg then ''-'' else [])
     @ [if d = [] then CHR ''0'' else hd d]
     @ (if 0 < prec
        then CHR ''.'' # take prec (tl d) @ replicate (prec - (length d - 1)) (CHR ''0'')
        else [])
     @ ''e''
     @ (let ex = (if d = [] then 0 else dp - 1); a = nat \<bar>ex\<bar>
        in (if ex < 0 then ''-'' else ''+'')
           @ (if a < 10 then [CHR ''0'', digits ! a]
              else if a < 100 then [digits ! (a div 10), digits ! (a mod 10)]
              else [digits ! (a div 100), digits ! (a div 10 mod 10), digits ! (a mod 10)]))"

text \<open>\<^verbatim>\<open>strconv.AppendFloat(b, f, fmt, -1, 64)\<close> for a finite \<open>f\<close> and \<open>fmt\<close> one of
  \<^verbatim>\<open>'e'\<close> and \<^verbatim>\<open>'f'\<close>; precision \<open>-1\<close> asks for the shortest digits.\<close>

definition AppendFloat :: "float64 \<Rightarrow> char \<Rightarrow> string" where
  "AppendFloat f fmt =
     (let ex = float_exp f; frac = float_mant f;
          mant = (if ex = 0 then frac else frac + 2 ^ 52);
          e = (if ex = 0 then - 1074 else int ex - 1075);
          (d, dp) = roundShortest mant e
      in if fmt = CHR ''e'' then fmtE (float_neg f) d dp (length d - 1)
         else fmtF (float_neg f) d dp (nat (int (length d) - dp)))"

section \<open>encoding/json\<close>

datatype json_error = UnsupportedValueError string

text \<open>
  The float encoder of \<^verbatim>\<open>encoding/json\<close>: NaN and the infinities are an
  \<^verbatim>\<open>UnsupportedValueError\<close>; a finite value is printed as ECMAScript does, in
  exponent form below \<open>1e-6\<close> and from \<open>1e21\<close> on (the two constants are the float64
  bit patterns of these bounds), with a two-digit exponent \<^verbatim>\<open>e-09\<close> cut to \<^verbatim>\<open>e-9\<close>.
\<close>

definition floatEncoder :: "float64 \<Rightarrow> json_error + string" where
  "floatEncoder f =
     (if IsInf f \<or> IsNaN f
      then Inl (UnsupportedValueError
                  (if IsNaN f then ''NaN'' else if float_neg f then ''-Inf'' else ''+Inf''))
      else
        let abs = f AND 0x7FFFFFFFFFFFFFFF;
            fmt = (if abs \<noteq> 0 \<and> (abs < 0x3EB0C6F7A0B5ED8D \<or> 0x444B1AE4D6E2EF50 \<le> abs)
                   then CHR ''e'' else CHR ''f'');
            b = AppendFloat f fmt;
            n = length b
        in Inr (if fmt = CHR ''e'' \<and> 4 \<le> n \<and> b ! (n - 4) = CHR ''e''
                   \<and> (b ! (n - 3) = CHR ''-'' \<or> b ! (n - 3) = CHR ''+'') \<and> b ! (n - 2) = CHR ''0''
                then take (n - 2) b @ [b ! (n - 1)] else b))"

text \<open>
  String literals (\<^verbatim>\<open>appendString\<close> with \<^verbatim>\<open>escapeHTML\<close> set, as \<^verbatim>\<open>Marshal\<close> does):
  the bytes that pass unchanged are the printable ASCII ones except the double quote,
  the backslash (byte \<open>0x5C\<close>) and the three characters less-than, greater-than and
  ampersand. Backspace and form feed have their short escapes (since Go 1.22; before,
  they were written as \<^verbatim>\<open>u0008\<close> and \<^verbatim>\<open>u000c\<close> escapes).
\<close>

definition htmlSafeSet :: "char \<Rightarrow> bool" where
  \<open>htmlSafeSet b \<longleftrightarrow> 0x20 \<le> (of_char b :: nat) \<and> (of_char b :: nat) < 0x80
      \<and> b \<notin> {CHR ''"'', CHR ''&'', CHR ''<'', CHR ''>'', CHR 0x5C}\<close>

definition hex :: string where
  "hex = ''0123456789abcdef''"

definition escapeByte :: "char \<Rightarrow> string" where
  \<open>escapeByte b =
     (if b = CHR 0x5C \<or> b = CHR ''"'' then [CHR 0x5C, b]
      else if b = CHR 0x08 then [CHR 0x5C, CHR ''b'']
      else if b = CHR 0x0C then [CHR 0x5C, CHR ''f'']
      else if b = CHR 0x0A then [CHR 0x5C, CHR ''n'']
      else if b = CHR 0x0D then [CHR 0x5C, CHR ''r'']
      else if b = CHR 0x09 then [CHR 0x5C, CHR ''t'']
      else [CHR 0x5C, CHR ''u'', CHR ''0'', CHR ''0'',
            hex ! ((of_char b :: nat) div 16), hex ! ((of_char b :: nat) mod 16)])\<close>

text \<open>The loop of \<^verbatim>\<open>appendString\<close> over the source bytes: an invalid UTF-8 byte
  becomes the six characters of the escape of U+FFFD, the line and paragraph separators
  U+2028 and U+2029 are escaped, every other rune is copied.\<close>

fun appendString_loop :: "string \<Rightarrow> string" where
  "appendString_loop [] = []"
| "appendString_loop (b # src) =
     (if (of_char b :: nat) < 0x80
      then (if htmlSafeSet b then [b] else escapeByte b) @ appendString_loop src
      else
        (case DecodeRuneInString (b # src) of (c, n) \<Rightarrow>
          if c = RuneError \<and> n = 1
          then [CHR 0x5C, CHR ''u'', CHR ''f'', CHR ''f'', CHR ''f'', CHR ''d'']
                 @ appendString_loop src
          else if c = 0x2028 \<or> c = 0x2029
          then [CHR 0x5C, CHR ''u'', CHR ''2'', CHR ''0'', CHR ''2'', hex ! (c mod 16)]
                 @ appendString_loop (drop (n - 1) src)
          else (b # take (n - 1) src) @ appendString_loop (drop (n - 1) src)))"

definition appendString :: "string \<Rightarrow> string \<Rightarrow> string" where
  \<open>appendString dst src = dst @ [CHR ''"''] @ appendString_loop src @ [CHR ''"'']\<close>

text \<open>
  The values \<^verbatim>\<open>Marshal\<close> meets in this package: signed integers, strings, float64 and
  structs, a struct being the list of its fields in declaration order, each under the
  name its \<^verbatim>\<open>json\<close> tag gives it. The struct encoder writes \<^verbatim>\<open>{\<close> before the first
  field and a comma before every other one; the first encoding error aborts the whole
  encoding.
\<close>

datatype go_value =
    VInt int
  | VString string
  | VFloat64 float64
  | VStruct "(string \<times> go_value) list"

fun encode :: "go_value \<Rightarrow> json_error + string"
  and structEncoder :: "char \<Rightarrow> (string \<times> go_value) list \<Rightarrow> json_error + string" where
  "encode (VInt i) = Inr (FormatInt i)"
| "encode (VString s) = Inr (appendString [] s)"
| "encode (VFloat64 f) = floatEncoder f"
| "encode (VStruct fs) = structEncoder (CHR ''{'') fs"
| "structEncoder next [] = Inr (if next = CHR ''{'' then ''{}'' else ''}'')"
| "structEncoder next (f # fs) =
     (case encode (snd f) of
        Inl err \<Rightarrow> Inl err
      | Inr v \<Rightarrow>
          (case structEncoder (CHR '','') fs of
             Inl err \<Rightarrow> Inl err
           | Inr rest \<Rightarrow> Inr (next # appendString [] (fst f) @ '':'' @ v @ rest)))"

text \<open>\<^verbatim>\<open>json.Marshal\<close> returns the encoded bytes, or no bytes and the error.\<close>

definition Marshal :: "go_value \<Rightarrow> json_error + byte list" where
  "Marshal v = (case encode v of Inl err \<Rightarrow> Inl err | Inr s \<Rightarrow> Inr (bytes_of s))"

section \<open>crypto/sha256\<close>

definition RotateLeft32 :: "uint32 \<Rightarrow> int \<Rightarrow> uint32" where
  "RotateLeft32 v k = (let s = nat (k mod 32) in push_bit s v OR drop_bit (32 - s) v)"

definition K_tab :: "uint32 list" where
  "K_tab = [
    0x428A2F98, 0x71374491, 0xB5C0FBCF, 0xE9B5DBA5, 0x3956C25B, 0x59F111F1, 0x923F82A4, 0xAB1C5ED5,
    0xD807AA98, 0x12835B01, 0x243185BE, 0x550C7DC3, 0x72BE5D74, 0x80DEB1FE, 0x9BDC06A7, 0xC19BF174,
    0xE49B69C1, 0xEFBE4786, 0x0FC19DC6, 0x240CA1CC, 0x2DE92C6F, 0x4A7484AA, 0x5CB0A9DC, 0x76F988DA,
    0x983E5152, 0xA831C66D, 0xB00327C8, 0xBF597FC7, 0xC6E00BF3, 0xD5A79147, 0x06CA6351, 0x14292967,
    0x27B70A85, 0x2E1B2138, 0x4D2C6DFC, 0x53380D13, 0x650A7354, 0x766A0ABB, 0x81C2C92E, 0x92722C85,
    0xA2BFE8A1, 0xA81A664B, 0xC24B8B70, 0xC76C51A3, 0xD192E819, 0xD6990624, 0xF40E3585, 0x106AA070,
    0x19A4C116, 0x1E376C08, 0x2748774C, 0x34B0BCB5, 0x391C0CB3, 0x4ED8AA4A, 0x5B9CCA4F, 0x682E6FF3,
    0x748F82EE, 0x78A5636F, 0x84C87814, 0x8CC70208, 0x90BEFFFA, 0xA4506CEB, 0xBEF9A3F7, 0xC67178F2]"

type_synonym hash_state =
  "uint32 \<times> uint32 \<times> uint32 \<times> uint32 \<times> uint32 \<times> uint32 \<times> uint32 \<times> uint32"

definition init_state :: hash_state where
  "init_state =
     (0x6A09E667, 0xBB67AE85, 0x3C6EF372, 0xA54FF53A, 0x510E527F, 0x9B05688C, 0x1F83D9AB, 0x5BE0CD19)"

definition chunk :: nat where
  "chunk = 64"

text \<open>The first sixteen words of the message schedule: the chunk read as big-endian
  32-bit words.\<close>

fun load_words :: "byte list \<Rightarrow> uint32 list" where
  "load_words (p0 # p1 # p2 # p3 # p) =
     (push_bit 24 (ucast p0) OR push_bit 16 (ucast p1) OR push_bit 8 (ucast p2) OR ucast p3)
       # load_words p"
| "load_words _ = []"

text \<open>One step of the schedule: \<open>w\<close> holds the words \<open>w[0..i-1]\<close>, the step appends
  \<open>w[i]\<close>.\<close>

definition extend_step :: "uint32 list \<Rightarrow> uint32 list" where
  "extend_step w =
     (let i = length w;
          v1 = w ! (i - 2);
          t1 = RotateLeft32 v1 (- 17) XOR RotateLeft32 v1 (- 19) XOR drop_bit 10 v1;
          v2 = w ! (i - 15);
          t2 = RotateLeft32 v2 (- 7) XOR RotateLeft32 v2 (- 18) XOR drop_bit 3 v2
      in w @ [t1 + w ! (i - 7) + t2 + w ! (i - 16)])"

definition schedule :: "byte list \<Rightarrow> uint32 list" where
  "schedule p = (extend_step ^^ 48) (load_words (take chunk p))"

fun round_step :: "hash_state \<Rightarrow> uint32 \<times> uint32 \<Rightarrow> hash_state" where
  "round_step (a, b, c, d, e, f, g, h) (k, w) =
     (let t1 = h + (RotateLeft32 e (- 6) XOR RotateLeft32 e (- 11) XOR RotateLeft32 e (- 25))
                 + ((e AND f) XOR (NOT e AND g)) + k + w;
          t2 = (RotateLeft32 a (- 2) XOR RotateLeft32 a (- 13) XOR RotateLeft32 a (- 22))
                 + ((a AND b) XOR (a AND c) XOR (b AND c))
      in (t1 + t2, a, b, c, d + t1, e, f, g))"

fun add_state :: "hash_state \<Rightarrow> hash_state \<Rightarrow> hash_state" where
  "add_state (h0, h1, h2, h3, h4, h5, h6, h7) (a, b, c, d, e, f, g, h) =
     (h0 + a, h1 + b, h2 + c, h3 + d, h4 + e, h5 + f, h6 + g, h7 + h)"

text \<open>\<^verbatim>\<open>blockGeneric\<close>: consumes the input chunk by chunk while a whole chunk is
  left.\<close>

function blockGeneric :: "hash_state \<Rightarrow> byte list \<Rightarrow> hash_state" where
  "blockGeneric hs p =
     (if chunk \<le> length p
      then blockGeneric (add_state hs (foldl round_step hs (zip K_tab (schedule p))))
             (drop chunk p)
      else hs)"
  by pat_completeness auto
termination
  by (relation "measure (\<lambda>(hs, p). length p)") (auto simp: chunk_def)

declare blockGeneric.simps [simp del]

text \<open>The running digest: the chaining value, the bytes of the last, incomplete chunk
  (the array \<^verbatim>\<open>x\<close> up to \<^verbatim>\<open>nx\<close>) and the number of bytes written so far.\<close>

record digest =
  dig_h :: hash_state
  dig_x :: "byte list"
  dig_len :: uint64

definition New :: digest where
  "New = \<lparr>dig_h = init_state, dig_x = [], dig_len = 0\<rparr>"

definition Write :: "digest \<Rightarrow> byte list \<Rightarrow> digest" where
  "Write d p =
     (let d1 = d\<lparr>dig_len := dig_len d + of_nat (length p)\<rparr>;
          (d2, p2) =
            (if 0 < length (dig_x d1)
             then let n = min (chunk - length (dig_x d1)) (length p);
                      buf = dig_x d1 @ take n p
                  in (if length buf = chunk
                      then d1\<lparr>dig_h := blockGeneric (dig_h d1) buf, dig_x := []\<rparr>
                      else d1\<lparr>dig_x := buf\<rparr>,
                      drop n p)
             else (d1, p));
          (d3, p3) =
            (if chunk \<le> length p2
             then let n = length p2 - length p2 mod chunk
                  in (d2\<lparr>dig_h := blockGeneric (dig_h d2) (take n p2)\<rparr>, drop n p2)
             else (d2, p2))
      in if 0 < length p3 then d3\<lparr>dig_x := p3\<rparr> else d3)"

definition PutUint64 :: "uint64 \<Rightarrow> byte list" where
  "PutUint64 v = map (\<lambda>i. ucast (drop_bit (8 * i) v)) [7, 6, 5, 4, 3, 2, 1, 0]"

definition PutUint32 :: "uint32 \<Rightarrow> byte list" where
  "PutUint32 v = map (\<lambda>i. ucast (drop_bit (8 * i) v)) [3, 2, 1, 0]"

fun state_bytes :: "hash_state \<Rightarrow> byte list" where
  "state_bytes (h0, h1, h2, h3, h4, h5, h6, h7) =
     PutUint32 h0 @ PutUint32 h1 @ PutUint32 h2 @ PutUint32 h3 @
     PutUint32 h4 @ PutUint32 h5 @ PutUint32 h6 @ PutUint32 h7"

text \<open>The padding \<^verbatim>\<open>checkSum\<close> writes for a message of \<open>l\<close> bytes: a one bit and
  zero bits up to 56 bytes modulo 64 (the slice \<^verbatim>\<open>tmp[:t]\<close>), then the length in
  bits as 8 big-endian bytes.\<close>

definition padlen :: "uint64 \<Rightarrow> byte list" where
  "padlen l =
     (let t = (if l mod 64 < 56 then 56 - l mod 64 else 64 + 56 - l mod 64)
      in (0x80 # replicate (unat t - 1) 0) @ PutUint64 (push_bit 3 l))"

text \<open>\<^verbatim>\<open>checkSum\<close> writes the padding and returns the chaining value as 32
  bytes.\<close>

definition checkSum :: "digest \<Rightarrow> byte list" where
  "checkSum d = (let d' = Write d (padlen (dig_len d)) in state_bytes (dig_h d'))"

text \<open>\<^verbatim>\<open>Sum\<close> appends the checksum of a copy of the digest to its argument.\<close>

definition Sum :: "digest \<Rightarrow> byte list \<Rightarrow> byte list" where
  "Sum d b = b @ checkSum d"

text \<open>\<^verbatim>\<open>sha256.Sum256\<close>: the SHA-256 checksum of the data, through a fresh
  digest.\<close>

definition Sum256 :: "byte list \<Rightarrow> byte list" where
  "Sum256 data = checkSum (Write New data)"

section \<open>encoding/hex\<close>

definition hextable :: string where
  "hextable = ''0123456789abcdef''"

definition EncodeToString :: "byte list \<Rightarrow> string" where
  "EncodeToString src =
     concat (map (\<lambda>v. [hextable ! unat (drop_bit 4 v), hextable ! unat (v AND 0x0F)]) src)"

section \<open>Package core: the block and its hash\<close>

record SupplierData =
  INN :: string
  CompanyName :: string
  Action :: string
  RatingChange :: float64
  Details :: string

record Block =
  Index :: go_int
  Timestamp :: int64
  Data :: SupplierData
  PrevHash :: string
  Hash :: string
  Nonce :: go_int

text \<open>What \<^verbatim>\<open>encoding/json\<close> sees of the two structs: the fields in declaration order
  under the names of their \<^verbatim>\<open>json\<close> tags.\<close>

definition SupplierData_json :: "SupplierData \<Rightarrow> go_value" where
  "SupplierData_json d = VStruct
     [(''inn'', VString (INN d)),
      (''company_name'', VString (CompanyName d)),
      (''action'', VString (Action d)),
      (''rating_change'', VFloat64 (RatingChange d)),
      (''details'', VString (Details d))]"

definition Block_json :: "Block \<Rightarrow> go_value" where
  "Block_json b = VStruct
     [(''index'', VInt (sint (Index b))),
      (''timestamp'', VInt (sint (Timestamp b))),
      (''data'', SupplierData_json (Data b)),
      (''prev_hash'', VString (PrevHash b)),
      (''hash'', VString (Hash b)),
      (''nonce'', VInt (sint (Nonce b)))]"

text \<open>
  \<^verbatim>\<open>CalculateHash\<close>. The error of \<^verbatim>\<open>json.Marshal\<close> is dropped
  (\<^verbatim>\<open>dataBytes, _ := json.Marshal(b.Data)\<close>), so a failed encoding leaves \<open>dataBytes\<close>
  empty. The record is \<^verbatim>\<open>fmt.Sprintf("%d%d%s%s%d", b.Index, b.Timestamp,
  string(dataBytes), b.PrevHash, b.Nonce)\<close>: five verbs and no literal text between them.
\<close>

definition CalculateHash :: "Block \<Rightarrow> string" where
  "CalculateHash b =
     (let dataBytes = (case Marshal (SupplierData_json (Data b)) of
                         Inl err \<Rightarrow> [] | Inr bs \<Rightarrow> bs);
          record = fmt_d (Index b) @ fmt_d (Timestamp b) @ fmt_s (string_of dataBytes)
                     @ fmt_s (PrevHash b) @ fmt_d (Nonce b);
          h = New;
          h = Write h (bytes_of record);
          hashed = Sum h []
      in EncodeToString hashed)"

text \<open>\<^verbatim>\<open>NewBlock\<close>. The clock is an input: \<open>now\<close> is what \<^verbatim>\<open>time.Now().Unix()\<close>
  returns. The block is built without its hash, which is then computed from it and
  stored.\<close>

definition NewBlock :: "int64 \<Rightarrow> SupplierData \<Rightarrow> string \<Rightarrow> go_int \<Rightarrow> Block" where
  "NewBlock now data prevHash index =
     (let block = \<lparr>Index = index, Timestamp = now, Data = data, PrevHash = prevHash,
                   Hash = [], Nonce = 0\<rparr>
      in block\<lparr>Hash := CalculateHash block\<rparr>)"

text \<open>The details of the genesis payload are the UTF-8 bytes of the source literal:
  sixteen ASCII characters and two Cyrillic words of two bytes per letter.\<close>

definition genesisData :: SupplierData where
  "genesisData =
     \<lparr>INN = ''0000000000'',
      CompanyName = ''System Genesis'',
      Action = ''INIT'',
      RatingChange = 0,
      Details = ''Genesis Block - ''
        @ [CHR 0xD0, CHR 0xBD, CHR 0xD0, CHR 0xB0, CHR 0xD1, CHR 0x87, CHR 0xD0, CHR 0xB0,
           CHR 0xD0, CHR 0xBB, CHR 0xD0, CHR 0xBE]
        @ '' ''
        @ [CHR 0xD1, CHR 0x86, CHR 0xD0, CHR 0xB5, CHR 0xD0, CHR 0xBF, CHR 0xD0, CHR 0xBE,
           CHR 0xD1, CHR 0x87, CHR 0xD0, CHR 0xBA, CHR 0xD0, CHR 0xB8]\<rparr>"

definition NewGenesisBlock :: "int64 \<Rightarrow> Block" where
  "NewGenesisBlock now = NewBlock now genesisData ''0'' 0"


section \<open>Notions of the specification\<close>

text \<open>
  The decimal rendering of an integer, said by reading it back: a string is the decimal
  rendering of \<open>i\<close> when it is a minus sign (for a negative number only) followed by
  decimal digits without a leading zero, and these digits have the value \<open>i\<close>. Exactly
  one string reads back as a given integer.
\<close>

definition is_digit :: "char \<Rightarrow> bool" where
  "is_digit c \<longleftrightarrow> 48 \<le> (of_char c :: nat) \<and> (of_char c :: nat) \<le> 57"

definition digit_val :: "char \<Rightarrow> nat" where
  "digit_val c = of_char c - 48"

definition decimal_value :: "string \<Rightarrow> nat" where
  "decimal_value s = foldl (\<lambda>a c. 10 * a + digit_val c) 0 s"

definition parse_uint :: "string \<Rightarrow> nat option" where
  "parse_uint s =
     (if s \<noteq> [] \<and> list_all is_digit s \<and> (length s = 1 \<or> hd s \<noteq> CHR ''0'')
      then Some (decimal_value s) else None)"

definition parse_decimal :: "string \<Rightarrow> int option" where
  "parse_decimal s =
     (case s of
        [] \<Rightarrow> None
      | c # t \<Rightarrow>
          if c = CHR ''-''
          then (case parse_uint t of
                  None \<Rightarrow> None
                | Some n \<Rightarrow> if n = 0 then None else Some (- int n))
          else map_option int (parse_uint s))"

text \<open>Lowercase hexadecimal, said the same way: two digits of \<^verbatim>\<open>0-9a-f\<close> per byte,
  the high half first.\<close>

definition is_lower_hex :: "char \<Rightarrow> bool" where
  "is_lower_hex c \<longleftrightarrow> c \<in> set ''0123456789abcdef''"

definition hex_val :: "char \<Rightarrow> nat option" where
  "hex_val c =
     (let n = (of_char c :: nat)
      in if 48 \<le> n \<and> n \<le> 57 then Some (n - 48)
         else if 97 \<le> n \<and> n \<le> 102 then Some (n - 87)
         else None)"

fun decode_hex :: "string \<Rightarrow> byte list option" where
  "decode_hex [] = Some []"
| "decode_hex [c] = None"
| "decode_hex (c1 # c2 # s) =
     (case (hex_val c1, hex_val c2, decode_hex s) of
        (Some hi, Some lo, Some bs) \<Rightarrow> Some (of_nat (16 * hi + lo) # bs)
      | _ \<Rightarrow> None)"

text \<open>A float64 that JSON cannot express: NaN or an infinity. \<^verbatim>\<open>math.NaN()\<close> and
  \<^verbatim>\<open>math.Inf(sign)\<close> are such values.\<close>

definition nonfinite :: "float64 \<Rightarrow> bool" where
  "nonfinite f \<longleftrightarrow> IsInf f \<or> IsNaN f"

definition math_NaN :: float64 where
  "math_NaN = 0x7FF8000000000001"

definition math_Inf :: "int \<Rightarrow> float64" where
  "math_Inf sign = (if 0 \<le> sign then 0x7FF0000000000000 else 0xFFF0000000000000)"

text \<open>The JSON text of a payload as the specification describes it: one object with
  the five named fields in this order, the strings quoted, the number as printed by the
  float encoder.\<close>

definition number_text :: "float64 \<Rightarrow> string" where
  "number_text f = (case floatEncoder f of Inl err \<Rightarrow> [] | Inr s \<Rightarrow> s)"

definition payload_json :: "SupplierData \<Rightarrow> string" where
  \<open>payload_json d =
     ''{"inn":'' @ appendString [] (INN d)
     @ '',"company_name":'' @ appendString [] (CompanyName d)
     @ '',"action":'' @ appendString [] (Action d)
     @ '',"rating_change":'' @ number_text (RatingChange d)
     @ '',"details":'' @ appendString [] (Details d) @ ''}''\<close>

text \<open>The serialized payload bytes read as text: what \<^verbatim>\<open>json.Marshal\<close> hands back,
  which is nothing when it reports an error.\<close>

definition payload_text :: "SupplierData \<Rightarrow> string" where
  "payload_text d =
     string_of (case Marshal (SupplierData_json d) of Inl err \<Rightarrow> [] | Inr bs \<Rightarrow> bs)"

text \<open>The text record of a block: the five fields in their fixed order, nothing between
  them.\<close>

definition record_text :: "Block \<Rightarrow> string" where
  "record_text b =
     fmt_d (Index b) @ fmt_d (Timestamp b) @ payload_text (Data b) @ PrevHash b @ fmt_d (Nonce b)"

text \<open>The wire form of a block: the names and kinds of the fields of its JSON object,
  and the text of the object.\<close>

datatype json_kind = KInteger | KString | KNumber | KRecord

fun kind_of :: "go_value \<Rightarrow> json_kind" where
  "kind_of (VInt i) = KInteger"
| "kind_of (VString s) = KString"
| "kind_of (VFloat64 f) = KNumber"
| "kind_of (VStruct fs) = KRecord"

fun fields_of :: "go_value \<Rightarrow> (string \<times> json_kind) list" where
  "fields_of (VStruct fs) = map (\<lambda>f. (fst f, kind_of (snd f))) fs"
| "fields_of _ = []"

fun field :: "string \<Rightarrow> go_value \<Rightarrow> go_value option" where
  "field name (VStruct fs) = map_of fs name"
| "field name _ = None"

definition block_json_text :: "Block \<Rightarrow> string" where
  \<open>block_json_text b =
     ''{"index":'' @ FormatInt (sint (Index b))
     @ '',"timestamp":'' @ FormatInt (sint (Timestamp b))
     @ '',"data":'' @ payload_json (Data b)
     @ '',"prev_hash":'' @ appendString [] (PrevHash b)
     @ '',"hash":'' @ appendString [] (Hash b)
     @ '',"nonce":'' @ FormatInt (sint (Nonce b)) @ ''}''\<close>

text \<open>A payload and a block to run the definitions on.\<close>

definition sample_data :: SupplierData where
  "sample_data =
     \<lparr>INN = ''7707083893'', CompanyName = ''Acme'', Action = ''RATING_UPDATE'',
      RatingChange = 0, Details = ''contract 42''\<rparr>"

definition sample_block :: Block where
  "sample_block =
     \<lparr>Index = 1, Timestamp = 1700000000, Data = sample_data, PrevHash = ''0'', Hash = [],
      Nonce = 0\<rparr>"

section \<open>Bytes, digits and nibbles\<close>

lemma unat_of_char_byte: "unat (of_char c :: byte) = of_char c"
proof -
  have "(of_char c :: byte) = of_nat (of_char c)"
    by (simp add: of_nat_of_char)
  then have "unat (of_char c :: byte) = (of_char c :: nat) mod 2 ^ 8"
    by (simp only: unat_of_nat) simp
  then show ?thesis by simp
qed

lemma string_of_bytes_of: "string_of (bytes_of s) = s"
  by (simp add: string_of_def bytes_of_def unat_of_char_byte comp_def)

lemma unat_hi_nibble: "unat (drop_bit 4 (v :: byte)) = unat v div 16"
  by (simp add: drop_bit_eq_div unat_div)

lemma unat_lo_nibble: "unat ((v :: byte) AND 0x0F) = unat v mod 16"
proof -
  have "(0x0F :: byte) = mask 4"
    by (simp add: mask_eq_exp_minus_1)
  then have "v AND 0x0F = take_bit 4 v"
    by (simp add: take_bit_eq_mask)
  then show ?thesis
    by (simp add: take_bit_eq_mod unat_mod)
qed

lemma unat_byte_less: "unat (v :: byte) < 256"
  using unsigned_less [of v, where ?'a = nat] by simp

lemma hi_nibble: "unat (drop_bit 4 (v :: byte)) < 16"
  using unat_byte_less [of v] by (simp add: unat_hi_nibble)

lemma lo_nibble: "unat ((v :: byte) AND 0x0F) < 16"
  by (simp add: unat_lo_nibble)

lemma byte_of_nibbles: "(of_nat (16 * unat (drop_bit 4 v) + unat (v AND 0x0F)) :: byte) = v"
  by (simp add: unat_hi_nibble unat_lo_nibble)

lemma byte_nibbles_word: "16 * drop_bit 4 (v :: byte) + (v AND 0x0F) = v"
  using byte_of_nibbles [of v] by simp

lemma digits_nth:
  assumes "d < 10"
  shows "is_digit (digits ! d)" and "digit_val (digits ! d) = d"
    and "digits ! d = CHR ''0'' \<longleftrightarrow> d = 0"
  using assms
  by (auto simp: eval_nat_numeral less_Suc_eq digits_def is_digit_def digit_val_def)

lemma hextable_nth:
  assumes "n < 16"
  shows "hex_val (hextable ! n) = Some n" and "is_lower_hex (hextable ! n)"
  using assms
  by (auto simp: eval_nat_numeral less_Suc_eq hextable_def hex_val_def is_lower_hex_def)

section \<open>The decimal verb prints the canonical numeral\<close>

lemma decimal_value_snoc: "decimal_value (s @ [c]) = 10 * decimal_value s + digit_val c"
  by (simp add: decimal_value_def)

lemma formatBits_props:
  "formatBits u \<noteq> [] \<and> list_all is_digit (formatBits u) \<and> decimal_value (formatBits u) = u
     \<and> (hd (formatBits u) = CHR ''0'' \<longrightarrow> u = 0) \<and> (u < 10 \<longrightarrow> length (formatBits u) = 1)"
proof (induction u rule: formatBits.induct)
  case (1 u)
  show ?case
  proof (cases "u < 10")
    case True
    then have "formatBits u = [digits ! u]"
      by (simp add: formatBits.simps)
    with True show ?thesis
      by (simp add: digits_nth decimal_value_def)
  next
    case False
    then have eq: "formatBits u = formatBits (u div 10) @ [digits ! (u mod 10)]"
      by (subst formatBits.simps) simp
    from False have pos: "u div 10 \<noteq> 0" by simp
    from "1.IH" [OF False] pos False show ?thesis
      by (simp add: eq decimal_value_snoc digits_nth)
  qed
qed

lemma parse_uint_formatBits: "parse_uint (formatBits u) = Some u"
  using formatBits_props [of u]
  by (cases "u < 10") (auto simp: parse_uint_def)

lemma parse_decimal_FormatInt: "parse_decimal (FormatInt i) = Some i"
proof (cases "i < 0")
  case True
  then show ?thesis
    by (simp add: FormatInt_def parse_decimal_def parse_uint_formatBits)
next
  case False
  obtain c t where ct: "formatBits (nat i) = c # t"
    using formatBits_props [of "nat i"] by (cases "formatBits (nat i)") auto
  have "is_digit c"
    using formatBits_props [of "nat i"] by (simp add: ct)
  then have "c \<noteq> CHR ''-''"
    by (auto simp: is_digit_def)
  with False show ?thesis
    using parse_uint_formatBits [of "nat i"]
    by (simp add: FormatInt_def parse_decimal_def ct)
qed

lemma parse_decimal_fmt_d: "parse_decimal (fmt_d v) = Some (sint v)"
  by (simp add: fmt_d_def parse_decimal_FormatInt)

section \<open>The hex encoding and the checksum have a fixed shape\<close>

lemma length_EncodeToString: "length (EncodeToString src) = 2 * length src"
  by (induction src) (simp_all add: EncodeToString_def)

lemma list_all_EncodeToString: "list_all is_lower_hex (EncodeToString src)"
  by (induction src) (simp_all add: EncodeToString_def hextable_nth hi_nibble lo_nibble)

lemma decode_hex_EncodeToString: "decode_hex (EncodeToString src) = Some src"
  by (induction src)
    (simp_all add: EncodeToString_def hextable_nth hi_nibble lo_nibble byte_nibbles_word)

lemma length_state_bytes: "length (state_bytes hs) = 32"
  by (induction hs rule: state_bytes.induct) (simp add: PutUint32_def)

lemma length_checkSum: "length (checkSum d) = 32"
  by (simp add: checkSum_def Let_def length_state_bytes)

lemma length_Sum256: "length (Sum256 data) = 32"
  by (simp add: Sum256_def length_checkSum)

section \<open>The digest's buffer is empty after the padding\<close>

text \<open>
  \<^verbatim>\<open>checkSum\<close> asserts, after writing the padding, that no byte is left in the buffer
  (\<^verbatim>\<open>if d.nx != 0 { panic("d.nx != 0") }\<close>). It is the one assertion on the path of
  \<^verbatim>\<open>CalculateHash\<close>, and it holds for every message: the padding brings the number of
  bytes written to a multiple of the chunk size.
\<close>

lemma length_PutUint64: "length (PutUint64 v) = 8"
  by (simp add: PutUint64_def)

lemma unat_mod_64: "unat ((l :: uint64) mod 64) = unat l mod 64"
  by (simp add: unat_mod)

lemma length_padlen:
  "length (padlen l) = (if unat l mod 64 < 56 then 64 - unat l mod 64 else 128 - unat l mod 64)"
proof -
  let ?r = "unat l mod 64"
  have r: "unat (l mod 64) = ?r" by (rule unat_mod_64)
  have lt: "l mod 64 < 56 \<longleftrightarrow> ?r < 56"
    by (simp add: word_less_nat_alt r)
  show ?thesis
  proof (cases "?r < 56")
    case True
    then have le: "l mod 64 \<le> 56"
      by (simp add: word_le_nat_alt r)
    have "unat (56 - l mod 64) = 56 - ?r"
      using le by (simp add: unat_sub r)
    with True lt show ?thesis
      by (simp add: padlen_def Let_def length_PutUint64)
  next
    case False
    have "?r < 64" by simp
    then have le: "l mod 64 \<le> 64 + 56"
      by (simp add: word_le_nat_alt r)
    have "unat (64 + 56 - l mod 64) = 120 - ?r"
      using le by (simp add: unat_sub r)
    with False lt \<open>?r < 64\<close> show ?thesis
      by (simp add: padlen_def Let_def length_PutUint64)
  qed
qed

lemma dig_x_Write_New: "length (dig_x (Write New p)) = length p mod 64"
  by (auto simp: Write_def New_def chunk_def Let_def)

lemma dig_len_Write_New: "dig_len (Write New p) = of_nat (length p)"
  by (simp add: Write_def New_def chunk_def Let_def split: prod.splits)

lemma unat_of_nat_mod_64: "unat (of_nat n :: uint64) mod 64 = n mod 64"
proof -
  have "unat (of_nat n :: uint64) = n mod 2 ^ 64"
    by (simp only: unat_of_nat) simp
  moreover have "(64 :: nat) dvd 2 ^ 64"
    by simp
  ultimately show ?thesis
    by (simp only: mod_mod_cancel)
qed

lemma Write_flushes:
  assumes "length (dig_x d) < 64" and "(length (dig_x d) + length p) mod 64 = 0"
  shows "dig_x (Write d p) = []"
proof (cases "dig_x d = []")
  case True
  with assms(2) have m: "length p mod 64 = 0"
    by simp
  show ?thesis
  proof (cases "64 \<le> length p")
    case ge: True
    with True m show ?thesis
      by (simp add: Write_def chunk_def Let_def)
  next
    case False
    with m have "p = []"
      by simp
    with True show ?thesis
      by (simp add: Write_def chunk_def Let_def)
  qed
next
  case False
  let ?nx = "length (dig_x d)"
  from False have pos: "0 < ?nx"
    by simp
  have ge: "64 - ?nx \<le> length p"
  proof (rule ccontr)
    assume "\<not> 64 - ?nx \<le> length p"
    then have "?nx + length p < 64"
      by simp
    with assms(2) pos show False
      by simp
  qed
  then have n: "min (64 - ?nx) (length p) = 64 - ?nx"
    by simp
  let ?p2 = "drop (64 - ?nx) p"
  have len2: "length ?p2 = ?nx + length p - 64"
    using assms(1) by simp
  have big: "64 \<le> ?nx + length p"
    using ge assms(1) by simp
  have "(?nx + length p - 64) mod 64 = 0"
    using assms(2) le_mod_geq [OF big] by simp
  then have m2: "length ?p2 mod 64 = 0"
    by (simp only: len2)
  show ?thesis
  proof (cases "64 \<le> length ?p2")
    case True
    with False n m2 assms(1) show ?thesis
      by (simp add: Write_def chunk_def Let_def)
  next
    case False
    with m2 have "?p2 = []"
      by (metis length_0_conv mod_less not_le)
    with \<open>dig_x d \<noteq> []\<close> n assms(1) show ?thesis
      by (simp add: Write_def chunk_def Let_def)
  qed
qed

lemma checkSum_buffer_empty:
  "dig_x (Write (Write New p) (padlen (dig_len (Write New p)))) = []"
proof (rule Write_flushes)
  show "length (dig_x (Write New p)) < 64"
    by (simp add: dig_x_Write_New)
  show "(length (dig_x (Write New p)) + length (padlen (dig_len (Write New p)))) mod 64 = 0"
  proof -
    let ?r = "length p mod 64"
    have "?r < 64" by simp
    then show ?thesis
      by (simp add: dig_x_Write_New dig_len_Write_New length_padlen unat_of_nat_mod_64)
  qed
qed

section \<open>The JSON encoding of the payload\<close>

lemma floatEncoder_nonfinite:
  "nonfinite f \<Longrightarrow> floatEncoder f =
     Inl (UnsupportedValueError
            (if IsNaN f then ''NaN'' else if float_neg f then ''-Inf'' else ''+Inf''))"
  by (simp add: floatEncoder_def nonfinite_def)

lemma floatEncoder_finite: "\<not> nonfinite f \<Longrightarrow> floatEncoder f = Inr (number_text f)"
  by (simp add: floatEncoder_def nonfinite_def number_text_def Let_def)

lemma encode_SupplierData_finite:
  "\<not> nonfinite (RatingChange d) \<Longrightarrow> encode (SupplierData_json d) = Inr (payload_json d)"
  by (simp add: SupplierData_json_def payload_json_def floatEncoder_finite appendString_def
      htmlSafeSet_def)

lemma encode_SupplierData_nonfinite:
  "nonfinite (RatingChange d) \<Longrightarrow> \<exists>err. encode (SupplierData_json d) = Inl err"
  by (simp add: SupplierData_json_def floatEncoder_nonfinite)

lemma Marshal_SupplierData_nonfinite:
  "nonfinite (RatingChange d) \<Longrightarrow> \<exists>err. Marshal (SupplierData_json d) = Inl err"
  using encode_SupplierData_nonfinite [of d] by (auto simp: Marshal_def)

lemma Marshal_SupplierData_finite:
  "\<not> nonfinite (RatingChange d) \<Longrightarrow>
     Marshal (SupplierData_json d) = Inr (bytes_of (payload_json d))"
  by (simp add: Marshal_def encode_SupplierData_finite)

lemma payload_text_eq:
  "payload_text d = (if nonfinite (RatingChange d) then [] else payload_json d)"
proof (cases "nonfinite (RatingChange d)")
  case True
  then obtain err where "Marshal (SupplierData_json d) = Inl err"
    using Marshal_SupplierData_nonfinite by blast
  with True show ?thesis
    by (simp add: payload_text_def string_of_def)
next
  case False
  then show ?thesis
    by (simp add: payload_text_def Marshal_SupplierData_finite string_of_bytes_of)
qed

lemma payload_text_failed:
  "Marshal (SupplierData_json d) = Inl err \<Longrightarrow> payload_text d = []"
  by (simp add: payload_text_def string_of_def)

lemma encode_Block_finite:
  "\<not> nonfinite (RatingChange (Data b)) \<Longrightarrow> encode (Block_json b) = Inr (block_json_text b)"
  using encode_SupplierData_finite [of "Data b"]
  by (simp add: Block_json_def block_json_text_def appendString_def htmlSafeSet_def)

lemma nonfinite_NaN: "nonfinite math_NaN"
  by (simp add: nonfinite_def math_NaN_def IsNaN_def float_exp_def float_mant_def)

lemma nonfinite_Inf: "nonfinite (math_Inf 1)"
  by (simp add: nonfinite_def math_Inf_def IsInf_def float_exp_def float_mant_def)

lemma NaN_neq_Inf: "math_NaN \<noteq> math_Inf 1"
  by (simp add: math_NaN_def math_Inf_def)

lemma nonfinite_0: "\<not> nonfinite 0"
  by (simp add: nonfinite_def IsNaN_def IsInf_def float_exp_def float_mant_def)

lemma number_text_0: "number_text 0 = ''0''"
  by (simp add: number_text_def floatEncoder_def IsNaN_def IsInf_def float_exp_def
      float_mant_def AppendFloat_def roundShortest_def fmtF_def float_neg_def)

section \<open>The hash of a block\<close>

lemma CalculateHash_eq: "CalculateHash b = EncodeToString (Sum256 (bytes_of (record_text b)))"
  by (simp add: CalculateHash_def Sum256_def Sum_def record_text_def payload_text_def
      fmt_s_def Let_def)

lemma length_CalculateHash: "length (CalculateHash b) = 64"
  by (simp add: CalculateHash_eq length_EncodeToString length_Sum256)

lemma list_all_CalculateHash: "list_all is_lower_hex (CalculateHash b)"
  by (simp add: CalculateHash_eq list_all_EncodeToString)

lemma CalculateHash_Hash_update: "CalculateHash (b\<lparr>Hash := v\<rparr>) = CalculateHash b"
  by (simp add: CalculateHash_def)

lemma CalculateHash_cong:
  assumes "Index b1 = Index b2" and "Timestamp b1 = Timestamp b2" and "Data b1 = Data b2"
    and "PrevHash b1 = PrevHash b2" and "Nonce b1 = Nonce b2"
  shows "CalculateHash b1 = CalculateHash b2"
  using assms by (simp add: CalculateHash_def)

lemma NewBlock_fields:
  "Index (NewBlock now data prevHash index) = index"
  "Timestamp (NewBlock now data prevHash index) = now"
  "Data (NewBlock now data prevHash index) = data"
  "PrevHash (NewBlock now data prevHash index) = prevHash"
  "Nonce (NewBlock now data prevHash index) = 0"
  by (simp_all add: NewBlock_def Let_def)

lemma Hash_NewBlock:
  "Hash (NewBlock now data prevHash index) = CalculateHash (NewBlock now data prevHash index)"
proof -
  have "Hash (NewBlock now data prevHash index)
      = CalculateHash \<lparr>Index = index, Timestamp = now, Data = data, PrevHash = prevHash,
                        Hash = [], Nonce = 0\<rparr>"
    by (simp add: NewBlock_def Let_def)
  also have "\<dots> = CalculateHash (NewBlock now data prevHash index)"
    by (rule CalculateHash_cong) (simp_all add: NewBlock_fields)
  finally show ?thesis .
qed

lemma CalculateHash_nonfinite:
  assumes "nonfinite (RatingChange (Data b))"
  shows "CalculateHash b =
     EncodeToString (Sum256 (bytes_of
       (fmt_d (Index b) @ fmt_d (Timestamp b) @ PrevHash b @ fmt_d (Nonce b))))"
  using assms by (simp add: CalculateHash_eq record_text_def payload_text_eq)

lemma CalculateHash_nonfinite_eq:
  assumes "nonfinite r1" and "nonfinite r2"
  shows "CalculateHash (b\<lparr>Data := d\<lparr>RatingChange := r1\<rparr>\<rparr>)
           = CalculateHash (b\<lparr>Data := d\<lparr>RatingChange := r2\<rparr>\<rparr>)"
  using assms by (simp add: CalculateHash_nonfinite)

lemma bytes_of_eq_iff: "bytes_of s1 = bytes_of s2 \<longleftrightarrow> s1 = s2"
proof
  assume "bytes_of s1 = bytes_of s2"
  then have "string_of (bytes_of s1) = string_of (bytes_of s2)"
    by simp
  then show "s1 = s2"
    by (simp add: string_of_bytes_of)
qed simp

text \<open>With the other four fields fixed, the hashed bytes of two blocks are the same
  only if the payload texts are: past this point a change of the payload can go unseen
  only through a collision of SHA-256.\<close>

lemma record_text_payload:
  assumes "Index b1 = Index b2" and "Timestamp b1 = Timestamp b2"
    and "PrevHash b1 = PrevHash b2" and "Nonce b1 = Nonce b2"
  shows "bytes_of (record_text b1) = bytes_of (record_text b2)
    \<longleftrightarrow> payload_text (Data b1) = payload_text (Data b2)"
  using assms by (simp add: bytes_of_eq_iff record_text_def)

text \<open>A change of one byte of a string field can go unseen as well: the encoder writes
  every byte that is not valid UTF-8 as the same escape, that of U+FFFD.\<close>

lemma DecodeRuneInString_invalid:
  "DecodeRuneInString [CHR 0xFF] = (RuneError, 1)"
  "DecodeRuneInString [CHR 0xFE] = (RuneError, 1)"
  by (simp_all add: DecodeRuneInString_def Let_def)

lemma appendString_loop_invalid:
  "appendString_loop [CHR 0xFF] = appendString_loop [CHR 0xFE]"
  by (simp add: DecodeRuneInString_invalid)

lemma CalculateHash_invalid_utf8:
  "sample_data\<lparr>INN := [CHR 0xFF]\<rparr> \<noteq> sample_data\<lparr>INN := [CHR 0xFE]\<rparr>
   \<and> CalculateHash (sample_block\<lparr>Data := sample_data\<lparr>INN := [CHR 0xFF]\<rparr>\<rparr>)
     = CalculateHash (sample_block\<lparr>Data := sample_data\<lparr>INN := [CHR 0xFE]\<rparr>\<rparr>)"
proof -
  have "payload_json (sample_data\<lparr>INN := [CHR 0xFF]\<rparr>)
      = payload_json (sample_data\<lparr>INN := [CHR 0xFE]\<rparr>)"
    by (simp add: payload_json_def appendString_def DecodeRuneInString_invalid)
  moreover have "\<not> nonfinite (RatingChange sample_data)"
    by (simp add: sample_data_def nonfinite_0)
  ultimately have "payload_text (sample_data\<lparr>INN := [CHR 0xFF]\<rparr>)
      = payload_text (sample_data\<lparr>INN := [CHR 0xFE]\<rparr>)"
    by (simp add: payload_text_eq)
  then have "CalculateHash (sample_block\<lparr>Data := sample_data\<lparr>INN := [CHR 0xFF]\<rparr>\<rparr>)
      = CalculateHash (sample_block\<lparr>Data := sample_data\<lparr>INN := [CHR 0xFE]\<rparr>\<rparr>)"
    by (simp add: CalculateHash_eq record_text_def)
  moreover have "sample_data\<lparr>INN := [CHR 0xFF]\<rparr> \<noteq> sample_data\<lparr>INN := [CHR 0xFE]\<rparr>"
    by (simp add: sample_data_def)
  ultimately show ?thesis
    by blast
qed

text \<open>The record hashed for the genesis block: the Cyrillic letters of the details
  are valid UTF-8 and pass the JSON encoder unchanged.\<close>

lemma record_text_genesis:
  \<open>record_text (NewGenesisBlock now) =
     ''0'' @ fmt_d now
     @ ''{"inn":"0000000000","company_name":"System Genesis","action":"INIT",''
     @ ''"rating_change":0,"details":"Genesis Block - ''
     @ [CHR 0xD0, CHR 0xBD, CHR 0xD0, CHR 0xB0, CHR 0xD1, CHR 0x87, CHR 0xD0, CHR 0xB0,
        CHR 0xD0, CHR 0xBB, CHR 0xD0, CHR 0xBE]
     @ '' ''
     @ [CHR 0xD1, CHR 0x86, CHR 0xD0, CHR 0xB5, CHR 0xD0, CHR 0xBF, CHR 0xD0, CHR 0xBE,
        CHR 0xD1, CHR 0x87, CHR 0xD0, CHR 0xBA, CHR 0xD0, CHR 0xB8]
     @ ''"}'' @ ''0'' @ ''0''\<close>
proof -
  have nf: "\<not> nonfinite (RatingChange genesisData)"
    by (simp add: genesisData_def nonfinite_0)
  have zero: "fmt_d 0 = ''0''"
    by (simp add: fmt_d_def FormatInt_def formatBits.simps digits_def)
  have "payload_text genesisData = payload_json genesisData"
    using nf by (simp add: payload_text_eq)
  also have \<open>\<dots> =
     ''{"inn":"0000000000","company_name":"System Genesis","action":"INIT",''
     @ ''"rating_change":0,"details":"Genesis Block - ''
     @ [CHR 0xD0, CHR 0xBD, CHR 0xD0, CHR 0xB0, CHR 0xD1, CHR 0x87, CHR 0xD0, CHR 0xB0,
        CHR 0xD0, CHR 0xBB, CHR 0xD0, CHR 0xBE]
     @ '' ''
     @ [CHR 0xD1, CHR 0x86, CHR 0xD0, CHR 0xB5, CHR 0xD0, CHR 0xBF, CHR 0xD0, CHR 0xBE,
        CHR 0xD1, CHR 0x87, CHR 0xD0, CHR 0xBA, CHR 0xD0, CHR 0xB8]
     @ ''"}''\<close>
    by (simp add: payload_json_def number_text_0 appendString_def genesisData_def
        htmlSafeSet_def DecodeRuneInString_def RuneError_def Let_def)
  finally show ?thesis
    by (simp add: record_text_def NewGenesisBlock_def NewBlock_fields zero)
qed

section \<open>The claims\<close>

text \<open>
  Claim C1. For every block, \<^verbatim>\<open>CalculateHash\<close> returns the lowercase hexadecimal
  encoding of the SHA-256 digest of the bytes of the text record that concatenates, in
  this order and with nothing between them, the decimal rendering of the index, the
  decimal rendering of the timestamp, the serialized payload read as text, the previous
  hash as it is, and the decimal rendering of the nonce. The three numerals read back as
  the three integers, the result reads back as the digest, and the payload text is the
  JSON object of the payload (no text at all for a payload JSON cannot express).
\<close>

theorem CalculateHash_record:
  "CalculateHash b =
     EncodeToString (Sum256 (bytes_of
       (fmt_d (Index b) @ fmt_d (Timestamp b) @ payload_text (Data b) @ PrevHash b
          @ fmt_d (Nonce b))))
   \<and> parse_decimal (fmt_d (Index b)) = Some (sint (Index b))
   \<and> parse_decimal (fmt_d (Timestamp b)) = Some (sint (Timestamp b))
   \<and> parse_decimal (fmt_d (Nonce b)) = Some (sint (Nonce b))
   \<and> decode_hex (CalculateHash b) = Some (Sum256 (bytes_of (record_text b)))
   \<and> list_all is_lower_hex (CalculateHash b)
   \<and> payload_text (Data b)
       = (if nonfinite (RatingChange (Data b)) then [] else payload_json (Data b))"
proof -
  have "CalculateHash b = EncodeToString (Sum256 (bytes_of (record_text b)))"
    by (rule CalculateHash_eq)
  then show ?thesis
    by (simp add: record_text_def parse_decimal_fmt_d decode_hex_EncodeToString
        list_all_EncodeToString payload_text_eq)
qed

text \<open>
  Claim C2. Every block that \<^verbatim>\<open>NewBlock\<close> returns, and so every block that
  \<^verbatim>\<open>NewGenesisBlock\<close> returns, holds in its \<open>Hash\<close> field the value of
  \<^verbatim>\<open>CalculateHash\<close> on its own fields: on the index, payload and previous hash given
  to the constructor, the captured timestamp and the nonce 0, whatever the \<open>Hash\<close> field
  of the block hashed.
\<close>

theorem NewBlock_self_consistent:
  "Hash (NewBlock now data prevHash index) = CalculateHash (NewBlock now data prevHash index)
   \<and> Hash (NewBlock now data prevHash index)
       = CalculateHash \<lparr>Index = index, Timestamp = now, Data = data, PrevHash = prevHash,
                         Hash = v, Nonce = 0\<rparr>
   \<and> Index (NewBlock now data prevHash index) = index
   \<and> Timestamp (NewBlock now data prevHash index) = now
   \<and> Data (NewBlock now data prevHash index) = data
   \<and> PrevHash (NewBlock now data prevHash index) = prevHash
   \<and> Nonce (NewBlock now data prevHash index) = 0
   \<and> Hash (NewGenesisBlock now) = CalculateHash (NewGenesisBlock now)
   \<and> Nonce (NewGenesisBlock now) = 0"
proof -
  have "CalculateHash (NewBlock now data prevHash index)
      = CalculateHash \<lparr>Index = index, Timestamp = now, Data = data, PrevHash = prevHash,
                        Hash = v, Nonce = 0\<rparr>"
    by (rule CalculateHash_cong) (simp_all add: NewBlock_fields)
  then show ?thesis
    by (simp add: Hash_NewBlock NewBlock_fields NewGenesisBlock_def)
qed

text \<open>
  Claim C3, as the code has it. \<^verbatim>\<open>NewGenesisBlock\<close> always returns a block with index
  0, previous hash \<^verbatim>\<open>"0"\<close>, nonce 0 and the captured timestamp, whose payload is the
  fixed genesis payload: INN \<^verbatim>\<open>"0000000000"\<close>, company name \<^verbatim>\<open>"System Genesis"\<close>, action
  \<^verbatim>\<open>"INIT"\<close>, rating change 0, and the details of the source literal, which are
  \<^verbatim>\<open>"Genesis Block - "\<close> followed by two Cyrillic words in UTF-8 (43 bytes in all). Its
  hash is \<^verbatim>\<open>CalculateHash\<close> on exactly these field values.
\<close>

theorem NewGenesisBlock_shape:
  "Index (NewGenesisBlock now) = 0
   \<and> PrevHash (NewGenesisBlock now) = ''0''
   \<and> Nonce (NewGenesisBlock now) = 0
   \<and> Timestamp (NewGenesisBlock now) = now
   \<and> Data (NewGenesisBlock now) =
       \<lparr>INN = ''0000000000'', CompanyName = ''System Genesis'', Action = ''INIT'',
        RatingChange = 0,
        Details = ''Genesis Block - ''
          @ [CHR 0xD0, CHR 0xBD, CHR 0xD0, CHR 0xB0, CHR 0xD1, CHR 0x87, CHR 0xD0, CHR 0xB0,
             CHR 0xD0, CHR 0xBB, CHR 0xD0, CHR 0xBE]
          @ '' ''
          @ [CHR 0xD1, CHR 0x86, CHR 0xD0, CHR 0xB5, CHR 0xD0, CHR 0xBF, CHR 0xD0, CHR 0xBE,
             CHR 0xD1, CHR 0x87, CHR 0xD0, CHR 0xBA, CHR 0xD0, CHR 0xB8]\<rparr>
   \<and> length (Details (Data (NewGenesisBlock now))) = 43
   \<and> Hash (NewGenesisBlock now) =
       CalculateHash
         \<lparr>Index = 0, Timestamp = now,
          Data = \<lparr>INN = ''0000000000'', CompanyName = ''System Genesis'', Action = ''INIT'',
                  RatingChange = 0,
                  Details = ''Genesis Block - ''
                    @ [CHR 0xD0, CHR 0xBD, CHR 0xD0, CHR 0xB0, CHR 0xD1, CHR 0x87, CHR 0xD0,
                       CHR 0xB0, CHR 0xD0, CHR 0xBB, CHR 0xD0, CHR 0xBE]
                    @ '' ''
                    @ [CHR 0xD1, CHR 0x86, CHR 0xD0, CHR 0xB5, CHR 0xD0, CHR 0xBF, CHR 0xD0,
                       CHR 0xBE, CHR 0xD1, CHR 0x87, CHR 0xD0, CHR 0xBA, CHR 0xD0, CHR 0xB8]\<rparr>,
          PrevHash = ''0'', Hash = v, Nonce = 0\<rparr>"
proof -
  have "CalculateHash (NewBlock now genesisData ''0'' 0)
      = CalculateHash \<lparr>Index = 0, Timestamp = now, Data = genesisData, PrevHash = ''0'',
                        Hash = v, Nonce = 0\<rparr>"
    by (rule CalculateHash_cong) (simp_all add: NewBlock_fields)
  then show ?thesis
    by (simp add: NewGenesisBlock_def Hash_NewBlock NewBlock_fields genesisData_def)
qed

text \<open>The details of the genesis payload are not the English text of the claim.\<close>

theorem NewGenesisBlock_details_counterexample:
  "Data (NewGenesisBlock 1700000000) \<noteq>
     \<lparr>INN = ''0000000000'', CompanyName = ''System Genesis'', Action = ''INIT'',
      RatingChange = 0, Details = ''Genesis Block - start of chain''\<rparr>"
  by (simp add: NewGenesisBlock_def NewBlock_fields genesisData_def)

text \<open>
  Claim C4. For every block, the string \<^verbatim>\<open>CalculateHash\<close> returns is exactly 64
  characters long and each of them is one of \<^verbatim>\<open>0-9a-f\<close>; so is the hash that either
  constructor stores.
\<close>

theorem CalculateHash_format:
  "length (CalculateHash b) = 64
   \<and> list_all is_lower_hex (CalculateHash b)
   \<and> length (Hash (NewBlock now data prevHash index)) = 64
   \<and> list_all is_lower_hex (Hash (NewBlock now data prevHash index))
   \<and> length (Hash (NewGenesisBlock now)) = 64
   \<and> list_all is_lower_hex (Hash (NewGenesisBlock now))"
  by (simp add: length_CalculateHash list_all_CalculateHash Hash_NewBlock NewGenesisBlock_def)

text \<open>
  Claim C5. \<^verbatim>\<open>CalculateHash\<close> is deterministic: two blocks with the same index,
  timestamp, payload, previous hash and nonce get the identical string of 64 lowercase
  hexadecimal characters.
\<close>

theorem CalculateHash_deterministic:
  assumes "Index b1 = Index b2" and "Timestamp b1 = Timestamp b2" and "Data b1 = Data b2"
    and "PrevHash b1 = PrevHash b2" and "Nonce b1 = Nonce b2"
  shows "CalculateHash b1 = CalculateHash b2
    \<and> length (CalculateHash b1) = 64 \<and> list_all is_lower_hex (CalculateHash b1)"
  using assms
  by (simp add: CalculateHash_cong [of b1 b2] length_CalculateHash list_all_CalculateHash)

theorem CalculateHash_deterministic_witness:
  "CalculateHash sample_block = CalculateHash (NewBlock 1700000000 sample_data ''0'' 1)
   \<and> length (CalculateHash sample_block) = 64
   \<and> list_all is_lower_hex (CalculateHash sample_block)"
  using CalculateHash_deterministic [of sample_block "NewBlock 1700000000 sample_data ''0'' 1"]
  by (simp add: sample_block_def NewBlock_fields length_CalculateHash list_all_CalculateHash)

text \<open>
  Claim C6, at the input where the code breaks it. The two blocks below differ in one
  payload field only, the rating change: \<^verbatim>\<open>math.NaN()\<close> in one, \<^verbatim>\<open>math.Inf(1)\<close> in the
  other. \<^verbatim>\<open>json.Marshal\<close> fails on both payloads, \<^verbatim>\<open>CalculateHash\<close> drops the error, and
  the two blocks get the same hash.
\<close>

theorem CalculateHash_collision:
  "Data (sample_block\<lparr>Data := sample_data\<lparr>RatingChange := math_NaN\<rparr>\<rparr>)
     \<noteq> Data (sample_block\<lparr>Data := sample_data\<lparr>RatingChange := math_Inf 1\<rparr>\<rparr>)
   \<and> CalculateHash (sample_block\<lparr>Data := sample_data\<lparr>RatingChange := math_NaN\<rparr>\<rparr>)
     = CalculateHash (sample_block\<lparr>Data := sample_data\<lparr>RatingChange := math_Inf 1\<rparr>\<rparr>)"
proof -
  have "sample_data\<lparr>RatingChange := math_NaN\<rparr>
      \<noteq> sample_data\<lparr>RatingChange := math_Inf 1\<rparr>"
    by (simp add: sample_data_def NaN_neq_Inf)
  with CalculateHash_nonfinite_eq
    [OF nonfinite_NaN nonfinite_Inf, where b = sample_block and d = sample_data]
  show ?thesis
    by simp
qed

text \<open>
  Claim C7. Neither constructor nor \<^verbatim>\<open>CalculateHash\<close> has a failure: \<^verbatim>\<open>NewBlock\<close>
  returns, for every payload, previous hash, index and clock value, a block that stores
  these arguments as they are, with a well-formed hash; \<^verbatim>\<open>CalculateHash\<close> returns a
  well-formed hash for every block, also when the payload cannot be serialized; and the
  assertion of \<^verbatim>\<open>checkSum\<close>, the only place on the way that could panic, holds for
  the record of every block.
\<close>

theorem constructors_accept_every_input:
  "Data (NewBlock now data prevHash index) = data
   \<and> PrevHash (NewBlock now data prevHash index) = prevHash
   \<and> Index (NewBlock now data prevHash index) = index
   \<and> length (Hash (NewBlock now data prevHash index)) = 64
   \<and> length (Hash (NewGenesisBlock now)) = 64
   \<and> length (CalculateHash b) = 64
   \<and> length (CalculateHash (b\<lparr>Data := d\<lparr>RatingChange := math_NaN\<rparr>\<rparr>)) = 64
   \<and> dig_x (Write (Write New (bytes_of (record_text b)))
              (padlen (dig_len (Write New (bytes_of (record_text b)))))) = []"
  by (simp add: NewBlock_fields Hash_NewBlock NewGenesisBlock_def length_CalculateHash
      checkSum_buffer_empty)

text \<open>
  Claim C8. A block serializes to one JSON object with exactly the fields \<^verbatim>\<open>index\<close>
  (integer), \<^verbatim>\<open>timestamp\<close> (integer), \<^verbatim>\<open>data\<close> (a nested object), \<^verbatim>\<open>prev_hash\<close>
  (string), \<^verbatim>\<open>hash\<close> (string) and \<^verbatim>\<open>nonce\<close> (integer), in this order, the nested object
  having exactly the fields \<^verbatim>\<open>inn\<close>, \<^verbatim>\<open>company_name\<close>, \<^verbatim>\<open>action\<close> (strings),
  \<^verbatim>\<open>rating_change\<close> (number) and \<^verbatim>\<open>details\<close> (string); for a finite rating change the
  encoder writes the object under these names.
\<close>

theorem Block_wire_format:
  "fields_of (Block_json b) =
     [(''index'', KInteger), (''timestamp'', KInteger), (''data'', KRecord),
      (''prev_hash'', KString), (''hash'', KString), (''nonce'', KInteger)]
   \<and> field ''data'' (Block_json b) = Some (SupplierData_json (Data b))
   \<and> fields_of (SupplierData_json d) =
     [(''inn'', KString), (''company_name'', KString), (''action'', KString),
      (''rating_change'', KNumber), (''details'', KString)]
   \<and> (\<not> nonfinite (RatingChange (Data b)) \<longrightarrow>
        encode (Block_json b) = Inr (block_json_text b))"
proof -
  have "fields_of (Block_json b) =
     [(''index'', KInteger), (''timestamp'', KInteger), (''data'', KRecord),
      (''prev_hash'', KString), (''hash'', KString), (''nonce'', KInteger)]"
    by (simp add: Block_json_def SupplierData_json_def)
  moreover have "field ''data'' (Block_json b) = Some (SupplierData_json (Data b))"
    by (simp add: Block_json_def)
  moreover have "fields_of (SupplierData_json d) =
     [(''inn'', KString), (''company_name'', KString), (''action'', KString),
      (''rating_change'', KNumber), (''details'', KString)]"
    by (simp add: SupplierData_json_def)
  moreover have "\<not> nonfinite (RatingChange (Data b)) \<longrightarrow>
        encode (Block_json b) = Inr (block_json_text b)"
    by (simp add: encode_Block_finite)
  ultimately show ?thesis
    by blast
qed

theorem Block_wire_format_witness:
  \<open>\<not> nonfinite (RatingChange (Data sample_block))
   \<and> encode (Block_json sample_block) =
       Inr (''{"index":1,"timestamp":1700000000,"data":{"inn":"7707083893",''
            @ ''"company_name":"Acme","action":"RATING_UPDATE","rating_change":0,''
            @ ''"details":"contract 42"},"prev_hash":"0","hash":"","nonce":0}'')\<close>
  using Block_wire_format [where b = sample_block and d = sample_data]
  by (simp add: sample_block_def sample_data_def nonfinite_0 number_text_0 block_json_text_def
      payload_json_def appendString_def htmlSafeSet_def FormatInt_def formatBits.simps
      digits_def)

text \<open>
  Claim C9. The result of \<^verbatim>\<open>CalculateHash\<close> does not depend on the \<open>Hash\<close> field of
  the block: replacing that field leaves the result unchanged, and recomputing
  \<^verbatim>\<open>CalculateHash\<close> on a freshly constructed block gives the stored hash.
\<close>

theorem CalculateHash_ignores_Hash:
  "CalculateHash (b\<lparr>Hash := v\<rparr>) = CalculateHash b
   \<and> CalculateHash (NewBlock now data prevHash index) = Hash (NewBlock now data prevHash index)
   \<and> CalculateHash (NewGenesisBlock now) = Hash (NewGenesisBlock now)"
  by (simp add: CalculateHash_Hash_update Hash_NewBlock NewGenesisBlock_def)

text \<open>
  Claim C10. \<^verbatim>\<open>CalculateHash\<close> drops the error of the payload's serialization. When
  \<^verbatim>\<open>json.Marshal\<close> fails on the payload, as it does for a rating change that is NaN or
  an infinity, the payload adds no byte to the hashed record and the result is still a
  string of 64 hexadecimal characters; two blocks that differ only in the non-finite
  rating changes of their payloads get the same hash.
\<close>

theorem CalculateHash_drops_Marshal_error:
  assumes "Marshal (SupplierData_json (Data b)) = Inl err"
    and "nonfinite r1" and "nonfinite r2"
  shows "CalculateHash b =
       EncodeToString (Sum256 (bytes_of
         (fmt_d (Index b) @ fmt_d (Timestamp b) @ PrevHash b @ fmt_d (Nonce b))))
    \<and> length (CalculateHash b) = 64
    \<and> list_all is_lower_hex (CalculateHash b)
    \<and> (\<exists>e. Marshal (SupplierData_json (d\<lparr>RatingChange := r1\<rparr>)) = Inl e)
    \<and> CalculateHash (b\<lparr>Data := d\<lparr>RatingChange := r1\<rparr>\<rparr>)
        = CalculateHash (b\<lparr>Data := d\<lparr>RatingChange := r2\<rparr>\<rparr>)"
proof -
  have "payload_text (Data b) = []"
    using assms(1) by (rule payload_text_failed)
  then have "CalculateHash b =
       EncodeToString (Sum256 (bytes_of
         (fmt_d (Index b) @ fmt_d (Timestamp b) @ PrevHash b @ fmt_d (Nonce b))))"
    by (simp add: CalculateHash_eq record_text_def)
  moreover have "length (CalculateHash b) = 64"
    by (rule length_CalculateHash)
  moreover have "list_all is_lower_hex (CalculateHash b)"
    by (rule list_all_CalculateHash)
  moreover have "\<exists>e. Marshal (SupplierData_json (d\<lparr>RatingChange := r1\<rparr>)) = Inl e"
    using assms(2) by (simp add: Marshal_SupplierData_nonfinite)
  moreover have "CalculateHash (b\<lparr>Data := d\<lparr>RatingChange := r1\<rparr>\<rparr>)
        = CalculateHash (b\<lparr>Data := d\<lparr>RatingChange := r2\<rparr>\<rparr>)"
    using assms(2,3) by (rule CalculateHash_nonfinite_eq)
  ultimately show ?thesis
    by blast
qed

theorem CalculateHash_drops_Marshal_error_witness:
  "Marshal (SupplierData_json (sample_data\<lparr>RatingChange := math_NaN\<rparr>))
     = Inl (UnsupportedValueError ''NaN'')
   \<and> nonfinite math_NaN \<and> nonfinite (math_Inf 1)
   \<and> CalculateHash (sample_block\<lparr>Data := sample_data\<lparr>RatingChange := math_NaN\<rparr>\<rparr>)
       = EncodeToString (Sum256 (bytes_of ''1170000000000''))
   \<and> CalculateHash (sample_block\<lparr>Data := sample_data\<lparr>RatingChange := math_NaN\<rparr>\<rparr>)
       = CalculateHash (sample_block\<lparr>Data := sample_data\<lparr>RatingChange := math_Inf 1\<rparr>\<rparr>)"
proof -
  let ?b = "sample_block\<lparr>Data := sample_data\<lparr>RatingChange := math_NaN\<rparr>\<rparr>"
  have nan: "IsNaN math_NaN"
    by (simp add: math_NaN_def IsNaN_def float_exp_def float_mant_def)
  have m: "Marshal (SupplierData_json (sample_data\<lparr>RatingChange := math_NaN\<rparr>))
      = Inl (UnsupportedValueError ''NaN'')"
    using nan
    by (simp add: Marshal_def SupplierData_json_def floatEncoder_nonfinite nonfinite_NaN)
  then have m': "Marshal (SupplierData_json (Data ?b)) = Inl (UnsupportedValueError ''NaN'')"
    by simp
  have rec: "fmt_d (Index ?b) @ fmt_d (Timestamp ?b) @ PrevHash ?b @ fmt_d (Nonce ?b)
      = ''1170000000000''"
    by (simp add: sample_block_def fmt_d_def FormatInt_def formatBits.simps digits_def)
  note t = CalculateHash_drops_Marshal_error
    [OF m' nonfinite_NaN nonfinite_Inf, where d = sample_data]
  from t [unfolded rec]
  have e1: "CalculateHash ?b = EncodeToString (Sum256 (bytes_of ''1170000000000''))"
    by blast
  from t have "CalculateHash (?b\<lparr>Data := sample_data\<lparr>RatingChange := math_NaN\<rparr>\<rparr>)
      = CalculateHash (?b\<lparr>Data := sample_data\<lparr>RatingChange := math_Inf 1\<rparr>\<rparr>)"
    by blast
  then have e2: "CalculateHash ?b
      = CalculateHash (sample_block\<lparr>Data := sample_data\<lparr>RatingChange := math_Inf 1\<rparr>\<rparr>)"
    by simp
  from e1 e2 m nonfinite_NaN nonfinite_Inf show ?thesis
    by blast
qed

end
